theory Spec2Isabelle
  imports Main "HOL-Library.Word"
begin

section \<open>Data model of handwerk_app.py\<close>

text \<open>
  The program keeps one JSON document in a file. The document is a dictionary with the
  keys \<open>projects\<close> and \<open>inventory\<close>; a project, a task and a material are dictionaries
  too, written by the \<open>to_dict\<close> methods of the three dataclasses and read back with
  \<open>dict.get\<close>. A dictionary is modelled as a record of optional entries, one per key
  the program uses, typed as the dataclass annotates the field: \<open>None\<close> is an absent
  key (for the \<open>Optional[str]\<close> fields also the value \<open>None\<close>, which every read of
  the program treats as it treats absence). A file whose JSON has another shape (a project
  that is not a dictionary, an id that is not an integer) is outside the model. Text is a
  \<open>string\<close>, of which only equality and emptiness are used. A Python \<open>float\<close> is
  carried as its 64-bit pattern and is never computed with.
\<close>

type_synonym pyfloat = "64 word"

record Task =
  task_title :: string
  task_due_date :: "string option"
  task_status :: string

record Material =
  mat_name :: string
  mat_quantity :: pyfloat
  mat_unit :: string

record task_dict =
  t_title :: "string option"
  t_due_date :: "string option"
  t_status :: "string option"

record material_dict =
  m_name :: "string option"
  m_quantity :: "pyfloat option"
  m_unit :: "string option"

record Project =
  proj_id :: int
  proj_name :: string
  proj_customer :: string
  proj_address :: "string option"
  proj_due_date :: "string option"
  proj_status :: string
  proj_notes :: "string option"
  proj_tasks :: "task_dict list"
  proj_materials :: "material_dict list"

record project_dict =
  p_id :: "int option"
  p_name :: "string option"
  p_customer :: "string option"
  p_address :: "string option"
  p_due_date :: "string option"
  p_status :: "string option"
  p_notes :: "string option"
  p_tasks :: "task_dict list option"
  p_materials :: "material_dict list option"

record document =
  projects :: "project_dict list option"
  inventory :: "material_dict list option"

definition Task_to_dict :: "Task \<Rightarrow> task_dict" where
  "Task_to_dict self =
     \<lparr>t_title = Some (task_title self),
      t_due_date = task_due_date self,
      t_status = Some (task_status self)\<rparr>"

definition Material_to_dict :: "Material \<Rightarrow> material_dict" where
  "Material_to_dict self =
     \<lparr>m_name = Some (mat_name self),
      m_quantity = Some (mat_quantity self),
      m_unit = Some (mat_unit self)\<rparr>"

definition Project_to_dict :: "Project \<Rightarrow> project_dict" where
  "Project_to_dict self =
     \<lparr>p_id = Some (proj_id self),
      p_name = Some (proj_name self),
      p_customer = Some (proj_customer self),
      p_address = proj_address self,
      p_due_date = proj_due_date self,
      p_status = Some (proj_status self),
      p_notes = proj_notes self,
      p_tasks = Some (proj_tasks self),
      p_materials = Some (proj_materials self)\<rparr>"

definition DEFAULT_DATA :: document where
  "DEFAULT_DATA = \<lparr>projects = Some [], inventory = Some []\<rparr>"

text \<open>\<open>d.get(key, default)\<close> on an optional entry.\<close>

definition dict_get :: "'a option \<Rightarrow> 'a \<Rightarrow> 'a" where
  "dict_get entry dflt = (case entry of None \<Rightarrow> dflt | Some v \<Rightarrow> v)"

text \<open>Truthiness of an optional text (\<open>if args.status\<close>, \<open>if project.get("address")\<close>)
  and of an optional integer (\<open>if args.project_id\<close>): \<open>None\<close>, the empty text and
  \<open>0\<close> are false.\<close>

definition truthy_str :: "string option \<Rightarrow> bool" where
  "truthy_str v = (case v of None \<Rightarrow> False | Some s \<Rightarrow> s \<noteq> [])"

definition truthy_int :: "int option \<Rightarrow> bool" where
  "truthy_int v = (case v of None \<Rightarrow> False | Some i \<Rightarrow> i \<noteq> 0)"

section \<open>The store\<close>

text \<open>
  The file is \<open>None\<close> when it does not exist and \<open>Some bytes\<close> otherwise. The library
  functions \<open>json.load\<close> and \<open>json.dump\<close> are parameters: \<open>json_load\<close> gives
  \<open>None\<close> where the library raises on text that is not JSON, \<open>json_dump\<close> gives the
  bytes written. The type of the bytes is left open.

  \<open>DEFAULT_DATA\<close> is a dictionary of the module, and the interpreter keeps it as long as
  it runs. \<open>DEFAULT_DATA.copy()\<close> is a shallow copy: a new dictionary with the same keys,
  whose two lists are the lists of the module's dictionary. So \<open>load_data\<close> on an absent
  file returns what the module's dictionary holds at that moment (\<open>default_data\<close> below;
  the constant \<open>DEFAULT_DATA\<close> is its value when the module is imported), and what a
  command then appends to a list of the copy, or changes in a project of such a list, is
  in the module's dictionary too. A key that \<open>setdefault\<close> adds to the copy is not.
\<close>

datatype error = JSONDecodeError | KeyError string | TypeError

definition load_data :: "('b \<Rightarrow> document option) \<Rightarrow> document \<Rightarrow> 'b option \<Rightarrow> error + document" where
  "load_data json_load default_data file =
     (case file of
        None \<Rightarrow> Inr default_data
      | Some bytes \<Rightarrow>
          (case json_load bytes of None \<Rightarrow> Inl JSONDecodeError | Some data \<Rightarrow> Inr data))"

text \<open>
  The module's dictionary after a command has changed the loaded \<open>data\<close> into
  \<open>data'\<close>: with the file absent the lists are shared, with the file read \<open>data\<close> is a
  structure of its own.
\<close>

definition module_data_after :: "'b option \<Rightarrow> document \<Rightarrow> document \<Rightarrow> document" where
  "module_data_after file default_data data' =
     (case file of
        None \<Rightarrow>
          \<lparr>projects = (case projects default_data of None \<Rightarrow> None | Some shared \<Rightarrow> projects data'),
           inventory = (case inventory default_data of None \<Rightarrow> None | Some shared \<Rightarrow> inventory data')\<rparr>
      | Some bytes \<Rightarrow> default_data)"

definition save_data :: "(document \<Rightarrow> 'b) \<Rightarrow> document \<Rightarrow> 'b option" where
  "save_data json_dump data = Some (json_dump data)"

text \<open>Python's \<open>max(iterable, default=d)\<close> on integers: \<open>d\<close> only for the empty
  iterable, otherwise the running maximum from the first element.\<close>

fun py_max :: "int list \<Rightarrow> int \<Rightarrow> int" where
  "py_max [] dflt = dflt"
| "py_max (x # xs) dflt = foldl (\<lambda>m v. if v > m then v else m) x xs"

definition next_project_id :: "document \<Rightarrow> int" where
  "next_project_id data =
     py_max (map (\<lambda>p. dict_get (p_id p) 0) (dict_get (projects data) [])) 0 + 1"

definition find_project :: "document \<Rightarrow> int \<Rightarrow> project_dict option" where
  "find_project data project_id =
     List.find (\<lambda>p. p_id p = Some project_id) (dict_get (projects data) [])"

text \<open>
  \<open>project.setdefault(key, []).append(item)\<close> on an optional list entry: the entry is
  created empty when the key is absent, and the item goes to its end.
\<close>

definition setdefault_append :: "'a list option \<Rightarrow> 'a \<Rightarrow> 'a list option" where
  "setdefault_append entry item = Some (dict_get entry [] @ [item])"

text \<open>
  \<open>find_project\<close> returns the dictionary that sits in \<open>data["projects"]\<close>, not a copy,
  so a change made through the returned reference is a change of the first element of the
  list whose id matches.
\<close>

fun update_found :: "(project_dict \<Rightarrow> project_dict) \<Rightarrow> int \<Rightarrow> project_dict list \<Rightarrow> project_dict list" where
  "update_found f project_id [] = []"
| "update_found f project_id (p # ps) =
     (if p_id p = Some project_id then f p # ps else p # update_found f project_id ps)"

definition mutate_project :: "(project_dict \<Rightarrow> project_dict) \<Rightarrow> int \<Rightarrow> document \<Rightarrow> document" where
  "mutate_project f project_id data =
     data\<lparr>projects := map_option (update_found f project_id) (projects data)\<rparr>"

section \<open>The command layer\<close>

text \<open>
  The arguments that \<open>argparse\<close> hands to each command: an option without a default is
  \<open>None\<close> when it is not given; \<open>--status\<close> of \<open>project add\<close> and \<open>task add\<close>
  and \<open>--unit\<close> default to a text.
\<close>

record project_add_args =
  pa_name :: string
  pa_customer :: string
  pa_address :: "string option"
  pa_due_date :: "string option"
  pa_status :: string
  pa_notes :: "string option"

record project_list_args =
  pl_status :: "string option"

record project_detail_args =
  pd_project_id :: int

record task_add_args =
  ta_project_id :: int
  ta_title :: string
  ta_due_date :: "string option"
  ta_status :: string

record material_add_args =
  ma_name :: string
  ma_quantity :: pyfloat
  ma_unit :: string
  ma_project_id :: "int option"

text \<open>
  What a command prints, one constructor per \<open>print\<close> call of the source, with the
  values that the call formats (the layout of the text is not modelled):
  \<^item> \<open>ProjectCreated i n c\<close>: "Projekt i angelegt: n f\"ur c";
  \<^item> \<open>ProjectNotFound i\<close>: "Projekt i nicht gefunden.";
  \<^item> \<open>NoProjectsFound\<close>: "Keine Projekte gefunden.";
  \<^item> \<open>TableHeader\<close>, \<open>TableRule\<close>, \<open>TableRow i p\<close>: the two heading lines and one
    line of the project table, for the project \<open>p\<close> with id \<open>i\<close>;
  \<^item> \<open>DetailTitle\<close> to \<open>NoMaterials\<close>: the lines of \<open>project detail\<close>;
  \<^item> \<open>TaskSaved i t\<close>: "Aufgabe f\"ur Projekt i gespeichert: t";
  \<^item> \<open>MaterialAdded c q u n\<close>: "Material hinzugef\"ugt zu c: q u n";
  \<^item> \<open>NoInventory\<close>, \<open>InventoryHeading\<close>: "Kein Lagerbestand erfasst.", "Lagerbestand:".
\<close>

datatype target = ProjectContext int | Lagerbestand

datatype message =
    ProjectCreated int string string
  | ProjectNotFound int
  | NoProjectsFound
  | TableHeader
  | TableRule
  | TableRow int project_dict
  | DetailTitle int string
  | DetailCustomer string
  | DetailAddress string
  | DetailDue string
  | DetailStatus string
  | DetailNotes string
  | TasksHeading
  | TaskLine nat string "string option" string
  | NoTasks
  | MaterialsHeading
  | MaterialLine "string option" "pyfloat option" "string option"
  | NoMaterials
  | TaskSaved int string
  | MaterialAdded target pyfloat string string
  | NoInventory
  | InventoryHeading

text \<open>
  A command is run on the file and ends with: how it ended (\<open>Inr ()\<close> for a normal
  return, \<open>Inl e\<close> for an exception that nothing catches), the file it leaves, and what
  it printed up to that point. A command function is called in an interpreter, takes the
  module's dictionary as it is then, and returns it with its outcome.
\<close>

type_synonym 'b outcome = "(error + unit) \<times> 'b option \<times> message list"

definition cmd_project_add ::
  "('b \<Rightarrow> document option) \<Rightarrow> (document \<Rightarrow> 'b) \<Rightarrow> project_add_args \<Rightarrow> document \<Rightarrow> 'b option \<Rightarrow> document \<times> 'b outcome" where
  "cmd_project_add json_load json_dump args default_data file =
     (case load_data json_load default_data file of
        Inl e \<Rightarrow> (default_data, Inl e, file, [])
      | Inr data \<Rightarrow>
          (let new_project =
                 \<lparr>proj_id = next_project_id data,
                  proj_name = pa_name args,
                  proj_customer = pa_customer args,
                  proj_address = pa_address args,
                  proj_due_date = pa_due_date args,
                  proj_status = pa_status args,
                  proj_notes = pa_notes args,
                  proj_tasks = [],
                  proj_materials = []\<rparr>;
               data' = data\<lparr>projects := setdefault_append (projects data) (Project_to_dict new_project)\<rparr>
           in (module_data_after file default_data data', Inr (), save_data json_dump data',
               [ProjectCreated (proj_id new_project) (proj_name new_project) (proj_customer new_project)])))"

text \<open>Lines 112 to 114 of the source: the projects that \<open>project list\<close> goes on with.\<close>

definition listed_projects :: "project_list_args \<Rightarrow> document \<Rightarrow> project_dict list" where
  "listed_projects args data =
     (let projects = dict_get (projects data) []
      in if truthy_str (pl_status args)
         then filter (\<lambda>p. p_status p = pl_status args) projects
         else projects)"

text \<open>The loop over the rows: formatting the id with \<open>:>3\<close> raises \<open>TypeError\<close> on a
  project without the key \<open>id\<close>, after the rows before it are printed.\<close>

fun print_rows :: "project_dict list \<Rightarrow> (error + unit) \<times> message list" where
  "print_rows [] = (Inr (), [])"
| "print_rows (proj # rest) =
     (case p_id proj of
        None \<Rightarrow> (Inl TypeError, [])
      | Some i \<Rightarrow> (case print_rows rest of (r, out) \<Rightarrow> (r, TableRow i proj # out)))"

definition cmd_project_list ::
  "('b \<Rightarrow> document option) \<Rightarrow> project_list_args \<Rightarrow> document \<Rightarrow> 'b option \<Rightarrow> document \<times> 'b outcome" where
  "cmd_project_list json_load args default_data file =
     (case load_data json_load default_data file of
        Inl e \<Rightarrow> (default_data, Inl e, file, [])
      | Inr data \<Rightarrow>
          (let projects = listed_projects args data
           in if projects = [] then (default_data, Inr (), file, [NoProjectsFound])
              else (case print_rows projects of
                      (r, out) \<Rightarrow> (default_data, r, file, TableHeader # TableRule # out))))"

text \<open>The task lines of \<open>project detail\<close>, numbered from \<open>idx\<close>.\<close>

fun task_lines :: "nat \<Rightarrow> task_dict list \<Rightarrow> message list" where
  "task_lines idx [] = []"
| "task_lines idx (task # rest) =
     (let due = (if truthy_str (t_due_date task) then dict_get (t_due_date task) ''-'' else ''-'')
      in TaskLine idx (dict_get (t_status task) ''-'') (t_title task) due # task_lines (Suc idx) rest)"

definition material_line :: "material_dict \<Rightarrow> message" where
  "material_line mat = MaterialLine (m_name mat) (m_quantity mat) (m_unit mat)"

text \<open>
  The lines of \<open>project detail\<close> for a project that was found. \<open>project['name']\<close> and
  \<open>project['customer']\<close> raise \<open>KeyError\<close> on an absent key; the first \<open>print\<close>
  reads \<open>id\<close> and then \<open>name\<close> before it prints anything.
\<close>

definition detail_lines :: "project_dict \<Rightarrow> (error + unit) \<times> message list" where
  "detail_lines project =
     (case p_id project of
        None \<Rightarrow> (Inl (KeyError ''id''), [])
      | Some i \<Rightarrow>
     (case p_name project of
        None \<Rightarrow> (Inl (KeyError ''name''), [])
      | Some n \<Rightarrow>
     (case p_customer project of
        None \<Rightarrow> (Inl (KeyError ''customer''), [DetailTitle i n])
      | Some c \<Rightarrow>
          (let tasks = dict_get (p_tasks project) [];
               materials = dict_get (p_materials project) []
           in (Inr (),
               [DetailTitle i n, DetailCustomer c]
               @ (if truthy_str (p_address project) then [DetailAddress (dict_get (p_address project) [])] else [])
               @ (if truthy_str (p_due_date project) then [DetailDue (dict_get (p_due_date project) [])] else [])
               @ [DetailStatus (dict_get (p_status project) ''-'')]
               @ (if truthy_str (p_notes project) then [DetailNotes (dict_get (p_notes project) [])] else [])
               @ (if tasks \<noteq> [] then TasksHeading # task_lines 1 tasks else [NoTasks])
               @ (if materials \<noteq> [] then MaterialsHeading # map material_line materials
                  else [NoMaterials]))))))"

text \<open>
  In the three commands below \<open>if not project\<close> is the test for \<open>None\<close>: a dictionary
  that \<open>find_project\<close> returns has the key \<open>id\<close>, so it is not empty and not false.
\<close>

definition cmd_project_detail ::
  "('b \<Rightarrow> document option) \<Rightarrow> project_detail_args \<Rightarrow> document \<Rightarrow> 'b option \<Rightarrow> document \<times> 'b outcome" where
  "cmd_project_detail json_load args default_data file =
     (case load_data json_load default_data file of
        Inl e \<Rightarrow> (default_data, Inl e, file, [])
      | Inr data \<Rightarrow>
          (case find_project data (pd_project_id args) of
             None \<Rightarrow> (default_data, Inr (), file, [ProjectNotFound (pd_project_id args)])
           | Some project \<Rightarrow> (case detail_lines project of (r, out) \<Rightarrow> (default_data, r, file, out))))"

definition cmd_task_add ::
  "('b \<Rightarrow> document option) \<Rightarrow> (document \<Rightarrow> 'b) \<Rightarrow> task_add_args \<Rightarrow> document \<Rightarrow> 'b option \<Rightarrow> document \<times> 'b outcome" where
  "cmd_task_add json_load json_dump args default_data file =
     (case load_data json_load default_data file of
        Inl e \<Rightarrow> (default_data, Inl e, file, [])
      | Inr data \<Rightarrow>
          (case find_project data (ta_project_id args) of
             None \<Rightarrow> (default_data, Inr (), file, [ProjectNotFound (ta_project_id args)])
           | Some project \<Rightarrow>
               (let task = \<lparr>task_title = ta_title args, task_due_date = ta_due_date args,
                            task_status = ta_status args\<rparr>;
                    data' = mutate_project
                              (\<lambda>p. p\<lparr>p_tasks := setdefault_append (p_tasks p) (Task_to_dict task)\<rparr>)
                              (ta_project_id args) data;
                    file' = save_data json_dump data'
                in (case p_id project of
                      None \<Rightarrow> (module_data_after file default_data data', Inl (KeyError ''id''), file', [])
                    | Some i \<Rightarrow>
                        (module_data_after file default_data data', Inr (), file',
                         [TaskSaved i (task_title task)])))))"

definition cmd_material_add ::
  "('b \<Rightarrow> document option) \<Rightarrow> (document \<Rightarrow> 'b) \<Rightarrow> material_add_args \<Rightarrow> document \<Rightarrow> 'b option \<Rightarrow> document \<times> 'b outcome" where
  "cmd_material_add json_load json_dump args default_data file =
     (case load_data json_load default_data file of
        Inl e \<Rightarrow> (default_data, Inl e, file, [])
      | Inr data \<Rightarrow>
          (let material = \<lparr>mat_name = ma_name args, mat_quantity = ma_quantity args,
                           mat_unit = ma_unit args\<rparr>
           in if truthy_int (ma_project_id args)
              then
                (let project_id = dict_get (ma_project_id args) 0
                 in case find_project data project_id of
                      None \<Rightarrow> (default_data, Inr (), file, [ProjectNotFound project_id])
                    | Some project \<Rightarrow>
                        (let data' = mutate_project
                                       (\<lambda>p. p\<lparr>p_materials :=
                                                 setdefault_append (p_materials p) (Material_to_dict material)\<rparr>)
                                       project_id data
                         in case p_id project of
                              None \<Rightarrow> (module_data_after file default_data data', Inl (KeyError ''id''), file, [])
                            | Some i \<Rightarrow>
                                (module_data_after file default_data data', Inr (),
                                 save_data json_dump data',
                                 [MaterialAdded (ProjectContext i) (mat_quantity material)
                                    (mat_unit material) (mat_name material)])))
              else
                (let data' = data\<lparr>inventory :=
                                    setdefault_append (inventory data) (Material_to_dict material)\<rparr>
                 in (module_data_after file default_data data', Inr (), save_data json_dump data',
                     [MaterialAdded Lagerbestand (mat_quantity material)
                        (mat_unit material) (mat_name material)]))))"

definition cmd_inventory_list :: "('b \<Rightarrow> document option) \<Rightarrow> document \<Rightarrow> 'b option \<Rightarrow> document \<times> 'b outcome" where
  "cmd_inventory_list json_load default_data file =
     (case load_data json_load default_data file of
        Inl e \<Rightarrow> (default_data, Inl e, file, [])
      | Inr data \<Rightarrow>
          (let inventory = dict_get (inventory data) []
           in if inventory = [] then (default_data, Inr (), file, [NoInventory])
              else (default_data, Inr (), file, InventoryHeading # map material_line inventory)))"

text \<open>
  \<open>main\<close> parses the command line and calls the function of the chosen subcommand once.
  A process ends with status 0 when \<open>main\<close> returns and with status 1 when an exception
  leaves it. The command line as \<open>argparse\<close> has parsed it:
\<close>

datatype command =
    ProjectAdd project_add_args
  | ProjectList project_list_args
  | ProjectDetail project_detail_args
  | TaskAdd task_add_args
  | MaterialAdd material_add_args
  | InventoryList

fun main :: "('b \<Rightarrow> document option) \<Rightarrow> (document \<Rightarrow> 'b) \<Rightarrow> command \<Rightarrow> document \<Rightarrow> 'b option \<Rightarrow> document \<times> 'b outcome" where
  "main json_load json_dump (ProjectAdd args) default_data file =
     cmd_project_add json_load json_dump args default_data file"
| "main json_load json_dump (ProjectList args) default_data file =
     cmd_project_list json_load args default_data file"
| "main json_load json_dump (ProjectDetail args) default_data file =
     cmd_project_detail json_load args default_data file"
| "main json_load json_dump (TaskAdd args) default_data file =
     cmd_task_add json_load json_dump args default_data file"
| "main json_load json_dump (MaterialAdd args) default_data file =
     cmd_material_add json_load json_dump args default_data file"
| "main json_load json_dump InventoryList default_data file =
     cmd_inventory_list json_load default_data file"

text \<open>
  Running the program from the command line: a new interpreter imports the module, so its
  dictionary is \<open>DEFAULT_DATA\<close> as defined, calls \<open>main\<close> once and ends.
\<close>

definition run_program ::
  "('b \<Rightarrow> document option) \<Rightarrow> (document \<Rightarrow> 'b) \<Rightarrow> command \<Rightarrow> 'b option \<Rightarrow> 'b outcome" where
  "run_program json_load json_dump command file =
     snd (main json_load json_dump command DEFAULT_DATA file)"

definition exit_status :: "'b outcome \<Rightarrow> nat" where
  "exit_status out = (case fst out of Inr _ \<Rightarrow> 0 | Inl _ \<Rightarrow> 1)"

section \<open>The JSON library\<close>

text \<open>
  Modelled from the spec: \<open>json.dump\<close> and \<open>json.load\<close> are functions of Python's
  library, which the source calls and does not define; section 6 of the specification
  says that the file is one JSON document of the shape of the data model. The model follows
  the conversion tables of the library's documentation: a dictionary is written as an
  object with its keys in their order, a list as an array, a \<open>str\<close> as a string, an
  \<open>int\<close> as a number, \<open>None\<close> as \<open>null\<close>, a finite \<open>float\<close> as the number that
  reads back as the same \<open>float\<close>, and (with \<open>allow_nan\<close>, the default) a NaN and the two
  infinities as \<open>NaN\<close>, \<open>Infinity\<close> and \<open>-Infinity\<close>; reading undoes this, \<open>NaN\<close>
  reads as the \<open>float\<close> that \<open>float('nan')\<close> gives, and of a key that is repeated in an
  object the last value counts. The text itself (indentation, escapes, digits) is not
  modelled: the content of a file is the JSON value that its text denotes.
\<close>

datatype json =
    JNull
  | JBool bool
  | JInt int
  | JFloat pyfloat
  | JNaN
  | JInfinity
  | JNegInfinity
  | JString string
  | JArray "json list"
  | JObject "(string \<times> json) list"

text \<open>The bit patterns of a binary64: a NaN has all exponent bits set and a mantissa
  other than 0.\<close>

definition float_nan :: pyfloat where
  "float_nan = 0x7FF8000000000000"

definition float_inf :: pyfloat where
  "float_inf = 0x7FF0000000000000"

definition float_neg_inf :: pyfloat where
  "float_neg_inf = 0xFFF0000000000000"

definition is_nan :: "pyfloat \<Rightarrow> bool" where
  "is_nan x \<longleftrightarrow> take_bit 11 (drop_bit 52 x) = 2047 \<and> take_bit 52 x \<noteq> 0"

text \<open>Python's \<open>==\<close> on two \<open>float\<close>s: a NaN equals nothing, itself included, and the
  two zeros are equal.\<close>

definition float_eq :: "pyfloat \<Rightarrow> pyfloat \<Rightarrow> bool" where
  "float_eq x y \<longleftrightarrow>
     \<not> is_nan x \<and> \<not> is_nan y \<and> (x = y \<or> (take_bit 63 x = 0 \<and> take_bit 63 y = 0))"

definition json_of_float :: "pyfloat \<Rightarrow> json" where
  "json_of_float x =
     (if is_nan x then JNaN
      else if x = float_inf then JInfinity
      else if x = float_neg_inf then JNegInfinity
      else JFloat x)"

fun float_of_json :: "json \<Rightarrow> pyfloat option" where
  "float_of_json (JFloat x) = Some x"
| "float_of_json JNaN = Some float_nan"
| "float_of_json JInfinity = Some float_inf"
| "float_of_json JNegInfinity = Some float_neg_inf"
| "float_of_json j = None"

definition json_of_optional_str :: "string option \<Rightarrow> json" where
  "json_of_optional_str v = (case v of None \<Rightarrow> JNull | Some s \<Rightarrow> JString s)"

text \<open>The pair of an entry that is present; nothing for an absent key.\<close>

definition opt_entry :: "string \<Rightarrow> ('a \<Rightarrow> json) \<Rightarrow> 'a option \<Rightarrow> (string \<times> json) list" where
  "opt_entry key to_json entry = (case entry of None \<Rightarrow> [] | Some v \<Rightarrow> [(key, to_json v)])"

definition json_of_task :: "task_dict \<Rightarrow> json" where
  "json_of_task t =
     JObject (opt_entry ''title'' JString (t_title t)
       @ [(''due_date'', json_of_optional_str (t_due_date t))]
       @ opt_entry ''status'' JString (t_status t))"

definition json_of_material :: "material_dict \<Rightarrow> json" where
  "json_of_material m =
     JObject (opt_entry ''name'' JString (m_name m)
       @ opt_entry ''quantity'' json_of_float (m_quantity m)
       @ opt_entry ''unit'' JString (m_unit m))"

definition json_of_project :: "project_dict \<Rightarrow> json" where
  "json_of_project p =
     JObject (opt_entry ''id'' JInt (p_id p)
       @ opt_entry ''name'' JString (p_name p)
       @ opt_entry ''customer'' JString (p_customer p)
       @ [(''address'', json_of_optional_str (p_address p))]
       @ [(''due_date'', json_of_optional_str (p_due_date p))]
       @ opt_entry ''status'' JString (p_status p)
       @ [(''notes'', json_of_optional_str (p_notes p))]
       @ opt_entry ''tasks'' (\<lambda>ts. JArray (map json_of_task ts)) (p_tasks p)
       @ opt_entry ''materials'' (\<lambda>ms. JArray (map json_of_material ms)) (p_materials p))"

definition py_json_dump :: "document \<Rightarrow> json" where
  "py_json_dump data =
     JObject (opt_entry ''projects'' (\<lambda>ps. JArray (map json_of_project ps)) (projects data)
       @ opt_entry ''inventory'' (\<lambda>ms. JArray (map json_of_material ms)) (inventory data))"

text \<open>The value of a key in an object that was read: the last pair with the key.\<close>

fun obj_get :: "(string \<times> json) list \<Rightarrow> string \<Rightarrow> json option" where
  "obj_get [] key = None"
| "obj_get ((k, v) # kvs) key =
     (case obj_get kvs key of
        Some w \<Rightarrow> Some w
      | None \<Rightarrow> if k = key then Some v else None)"

text \<open>
  Reading an entry of the type that the data model gives it. The outer \<open>None\<close> is a
  value of another type, which the data model does not hold; \<open>Some None\<close> is an absent
  key (for an \<open>Optional[str]\<close> entry also \<open>null\<close>).
\<close>

fun str_entry :: "json option \<Rightarrow> string option option" where
  "str_entry None = Some None"
| "str_entry (Some (JString s)) = Some (Some s)"
| "str_entry (Some j) = None"

fun optional_str_entry :: "json option \<Rightarrow> string option option" where
  "optional_str_entry None = Some None"
| "optional_str_entry (Some JNull) = Some None"
| "optional_str_entry (Some (JString s)) = Some (Some s)"
| "optional_str_entry (Some j) = None"

fun int_entry :: "json option \<Rightarrow> int option option" where
  "int_entry None = Some None"
| "int_entry (Some (JInt i)) = Some (Some i)"
| "int_entry (Some j) = None"

fun float_entry :: "json option \<Rightarrow> pyfloat option option" where
  "float_entry None = Some None"
| "float_entry (Some j) = map_option Some (float_of_json j)"

fun list_entry :: "(json \<Rightarrow> 'a option) \<Rightarrow> json option \<Rightarrow> 'a list option option" where
  "list_entry of_json None = Some None"
| "list_entry of_json (Some (JArray js)) = map_option Some (those (map of_json js))"
| "list_entry of_json (Some j) = None"

fun task_of_json :: "json \<Rightarrow> task_dict option" where
  "task_of_json (JObject kvs) =
     Option.bind (str_entry (obj_get kvs ''title'')) (\<lambda>title.
     Option.bind (optional_str_entry (obj_get kvs ''due_date'')) (\<lambda>due_date.
     Option.bind (str_entry (obj_get kvs ''status'')) (\<lambda>status.
     Some \<lparr>t_title = title, t_due_date = due_date, t_status = status\<rparr>)))"
| "task_of_json j = None"

fun material_of_json :: "json \<Rightarrow> material_dict option" where
  "material_of_json (JObject kvs) =
     Option.bind (str_entry (obj_get kvs ''name'')) (\<lambda>name.
     Option.bind (float_entry (obj_get kvs ''quantity'')) (\<lambda>quantity.
     Option.bind (str_entry (obj_get kvs ''unit'')) (\<lambda>unit.
     Some \<lparr>m_name = name, m_quantity = quantity, m_unit = unit\<rparr>)))"
| "material_of_json j = None"

fun project_of_json :: "json \<Rightarrow> project_dict option" where
  "project_of_json (JObject kvs) =
     Option.bind (int_entry (obj_get kvs ''id'')) (\<lambda>ident.
     Option.bind (str_entry (obj_get kvs ''name'')) (\<lambda>name.
     Option.bind (str_entry (obj_get kvs ''customer'')) (\<lambda>customer.
     Option.bind (optional_str_entry (obj_get kvs ''address'')) (\<lambda>address.
     Option.bind (optional_str_entry (obj_get kvs ''due_date'')) (\<lambda>due_date.
     Option.bind (str_entry (obj_get kvs ''status'')) (\<lambda>status.
     Option.bind (optional_str_entry (obj_get kvs ''notes'')) (\<lambda>notes.
     Option.bind (list_entry task_of_json (obj_get kvs ''tasks'')) (\<lambda>tasks.
     Option.bind (list_entry material_of_json (obj_get kvs ''materials'')) (\<lambda>materials.
     Some \<lparr>p_id = ident, p_name = name, p_customer = customer, p_address = address,
           p_due_date = due_date, p_status = status, p_notes = notes, p_tasks = tasks,
           p_materials = materials\<rparr>)))))))))"
| "project_of_json j = None"

text \<open>\<open>None\<close> is a value that is not a document of the data model; the file of the
  model holds a JSON value, so text that is not JSON does not occur in it.\<close>

fun py_json_load :: "json \<Rightarrow> document option" where
  "py_json_load (JObject kvs) =
     Option.bind (list_entry project_of_json (obj_get kvs ''projects'')) (\<lambda>ps.
     Option.bind (list_entry material_of_json (obj_get kvs ''inventory'')) (\<lambda>ms.
     Some \<lparr>projects = ps, inventory = ms\<rparr>))"
| "py_json_load j = None"

text \<open>
  Python's \<open>==\<close> on two documents, entry for entry: equality of the texts, the integers
  and the keys that are present, and \<open>float_eq\<close> on the quantities.
\<close>

definition material_eq :: "material_dict \<Rightarrow> material_dict \<Rightarrow> bool" where
  "material_eq m m' \<longleftrightarrow>
     m_name m = m_name m' \<and> rel_option float_eq (m_quantity m) (m_quantity m')
     \<and> m_unit m = m_unit m'"

definition project_eq :: "project_dict \<Rightarrow> project_dict \<Rightarrow> bool" where
  "project_eq p p' \<longleftrightarrow>
     p_id p = p_id p' \<and> p_name p = p_name p' \<and> p_customer p = p_customer p'
     \<and> p_address p = p_address p' \<and> p_due_date p = p_due_date p' \<and> p_status p = p_status p'
     \<and> p_notes p = p_notes p' \<and> p_tasks p = p_tasks p'
     \<and> rel_option (list_all2 material_eq) (p_materials p) (p_materials p')"

definition document_eq :: "document \<Rightarrow> document \<Rightarrow> bool" where
  "document_eq d d' \<longleftrightarrow>
     rel_option (list_all2 project_eq) (projects d) (projects d')
     \<and> rel_option (list_all2 material_eq) (inventory d) (inventory d')"

text \<open>The quantities of a document: of the inventory and of the materials of every
  project.\<close>

definition quantities_of :: "material_dict list option \<Rightarrow> pyfloat list" where
  "quantities_of entry =
     (case entry of
        None \<Rightarrow> []
      | Some ms \<Rightarrow> concat (map (\<lambda>m. case m_quantity m of None \<Rightarrow> [] | Some q \<Rightarrow> [q]) ms))"

definition quantities :: "document \<Rightarrow> pyfloat list" where
  "quantities data =
     (case projects data of
        None \<Rightarrow> []
      | Some ps \<Rightarrow> concat (map (\<lambda>p. quantities_of (p_materials p)) ps))
     @ quantities_of (inventory data)"

definition nan_document :: document where
  "nan_document =
     \<lparr>projects = Some [],
      inventory = Some [\<lparr>m_name = Some ''Kleber'', m_quantity = Some float_nan, m_unit = Some ''kg''\<rparr>]\<rparr>"

section \<open>Definitions used to state the properties\<close>

text \<open>The ids that \<open>next_project_id\<close> reads: \<open>p.get("id", 0)\<close> of every stored project.\<close>

definition stored_ids :: "document \<Rightarrow> int list" where
  "stored_ids data = map (\<lambda>p. dict_get (p_id p) 0) (dict_get (projects data) [])"

text \<open>The specification's formula for the next id: one more than the maximum of all
  stored ids and 0.\<close>

definition stated_next_project_id :: "document \<Rightarrow> int" where
  "stated_next_project_id data = fold max (stored_ids data) 0 + 1"

text \<open>Documents and a file codec for concrete runs. The codec keeps the document itself
  as the content of the file.\<close>

definition project_dach :: project_dict where
  "project_dach =
     \<lparr>p_id = Some 1, p_name = Some ''Dach'', p_customer = Some ''Meier'',
      p_address = None, p_due_date = Some ''2024-05-01'', p_status = Some ''offen'',
      p_notes = None, p_tasks = Some [], p_materials = Some []\<rparr>"

definition project_bad :: project_dict where
  "project_bad =
     \<lparr>p_id = Some 2, p_name = Some ''Bad'', p_customer = Some ''Schulz'',
      p_address = Some ''Hauptstr. 3'', p_due_date = None, p_status = Some ''erledigt'',
      p_notes = None,
      p_tasks = Some [\<lparr>t_title = Some ''Fliesen'', t_due_date = None, t_status = Some ''offen''\<rparr>],
      p_materials = Some []\<rparr>"

definition schrauben :: material_dict where
  "schrauben = \<lparr>m_name = Some ''Schrauben'', m_quantity = Some 0, m_unit = Some ''Stk''\<rparr>"

definition sample_document :: document where
  "sample_document =
     \<lparr>projects = Some [project_dach, project_bad],
      inventory = Some [schrauben]\<rparr>"

definition negative_id_document :: document where
  "negative_id_document =
     \<lparr>projects = Some [project_dach\<lparr>p_id := Some (- 5)\<rparr>], inventory = Some []\<rparr>"

definition plain_load :: "document \<Rightarrow> document option" where
  "plain_load bytes = Some bytes"

definition plain_dump :: "document \<Rightarrow> document" where
  "plain_dump data = data"

definition zero_id_document :: document where
  "zero_id_document =
     \<lparr>projects = Some [project_dach\<lparr>p_id := Some 0\<rparr>], inventory = Some []\<rparr>"

definition kleber_args :: material_add_args where
  "kleber_args = \<lparr>ma_name = ''Kleber'', ma_quantity = 0, ma_unit = ''kg'', ma_project_id = Some 0\<rparr>"

definition kleber :: material_dict where
  "kleber = \<lparr>m_name = Some ''Kleber'', m_quantity = Some 0, m_unit = Some ''kg''\<rparr>"

definition fugen_args :: task_add_args where
  "fugen_args = \<lparr>ta_project_id = 2, ta_title = ''Fugen'', ta_due_date = None, ta_status = ''offen''\<rparr>"


definition zaun_args :: project_add_args where
  "zaun_args = \<lparr>pa_name = ''Zaun'', pa_customer = ''Weber'', pa_address = None,
                 pa_due_date = None, pa_status = ''offen'', pa_notes = None\<rparr>"

definition project_zaun :: project_dict where
  "project_zaun =
     \<lparr>p_id = Some 1, p_name = Some ''Zaun'', p_customer = Some ''Weber'',
      p_address = None, p_due_date = None, p_status = Some ''offen'',
      p_notes = None, p_tasks = Some [], p_materials = Some []\<rparr>"

definition zaun_document :: document where
  "zaun_document = \<lparr>projects = Some [project_zaun], inventory = Some []\<rparr>"

text \<open>
  Successive runs of the program: every run is a process of its own, which starts on the
  file that the run before it left.
\<close>

fun invocations ::
  "('b \<Rightarrow> document option) \<Rightarrow> (document \<Rightarrow> 'b) \<Rightarrow> command list \<Rightarrow> 'b option \<Rightarrow> 'b outcome list" where
  "invocations json_load json_dump [] file = []"
| "invocations json_load json_dump (c # cs) file =
     (let out = run_program json_load json_dump c file
      in out # invocations json_load json_dump cs (fst (snd out)))"

text \<open>The id that a run of \<open>project add\<close> reports, and the projects of the rows that a
  run of \<open>project list\<close> prints.\<close>

fun assigned_id :: "'b outcome \<Rightarrow> int option" where
  "assigned_id (Inr u, file, [ProjectCreated i n c]) = Some i"
| "assigned_id out = None"

fun table_rows :: "message list \<Rightarrow> project_dict list" where
  "table_rows [] = []"
| "table_rows (TableRow i p # ms) = p # table_rows ms"
| "table_rows (m # ms) = table_rows ms"

text \<open>The file that a sequence of runs leaves.\<close>

fun file_after ::
  "('b \<Rightarrow> document option) \<Rightarrow> (document \<Rightarrow> 'b) \<Rightarrow> command list \<Rightarrow> 'b option \<Rightarrow> 'b option" where
  "file_after json_load json_dump [] file = file"
| "file_after json_load json_dump (c # cs) file =
     file_after json_load json_dump cs (fst (snd (run_program json_load json_dump c file)))"

text \<open>The document that \<open>project add\<close> saves: the loaded one with the new project at the
  end of its projects.\<close>

definition added :: "project_add_args \<Rightarrow> document \<Rightarrow> document" where
  "added args data =
     data\<lparr>projects := Some (dict_get (projects data) [] @
        [\<lparr>p_id = Some (next_project_id data), p_name = Some (pa_name args),
          p_customer = Some (pa_customer args), p_address = pa_address args,
          p_due_date = pa_due_date args, p_status = Some (pa_status args),
          p_notes = pa_notes args, p_tasks = Some [], p_materials = Some []\<rparr>])\<rparr>"

section \<open>Properties\<close>

subsection \<open>The next project id\<close>

lemma foldl_running_max:
  "foldl (\<lambda>m v. if v > m then v else m) (x::int) xs = Max (set (x # xs))"
proof -
  have "(\<lambda>m v. if v > m then v else m) = (\<lambda>m v::int. max v m)"
    by (auto simp add: max_def fun_eq_iff)
  then have "foldl (\<lambda>m v. if v > m then v else m) x xs = fold max xs x"
    by (simp add: foldl_conv_fold)
  then show ?thesis by (simp only: Max.set_eq_fold)
qed

lemma py_max_eq: "py_max xs d = (if xs = [] then d else Max (set xs))"
proof (cases xs)
  case Nil
  then show ?thesis by simp
next
  case (Cons y ys)
  then show ?thesis by (simp only: py_max.simps foldl_running_max) simp
qed

lemma next_project_id_py_max: "next_project_id data = py_max (stored_ids data) 0 + 1"
  by (simp add: next_project_id_def stored_ids_def)

text \<open>
  Claim C3, as stated: for every document, also one whose projects carry zero or negative
  ids, \<open>next_project_id\<close> returns one more than the maximum of all stored ids and 0.
  This fails on a document whose only project has the id \<open>-5\<close>: the default 0 of
  \<open>max\<close> is used for an empty project list only, so the result is \<open>-4\<close>, not 1.
\<close>

theorem next_project_id_negative_ids_counterexample:
  "next_project_id negative_id_document = - 4
   \<and> stated_next_project_id negative_id_document = 1
   \<and> next_project_id negative_id_document \<noteq> stated_next_project_id negative_id_document"
  by (simp add: next_project_id_def stated_next_project_id_def stored_ids_def
      negative_id_document_def project_dach_def dict_get_def)

text \<open>
  Claim C3, amended: for every document, \<open>next_project_id\<close> returns 1 when there is no
  project and otherwise one more than the largest stored id (a project without an id
  counts as 0); this is one more than the maximum of all stored ids and 0 whenever there
  is no project or at least one stored id is not negative.
\<close>

theorem next_project_id_max:
  "next_project_id data =
     (if stored_ids data = [] then 1 else Max (set (stored_ids data)) + 1)
   \<and> ((stored_ids data = [] \<or> (\<exists>i \<in> set (stored_ids data). 0 \<le> i))
        \<longrightarrow> next_project_id data = stated_next_project_id data)"
proof -
  let ?ids = "stored_ids data"
  have first: "next_project_id data = (if ?ids = [] then 1 else Max (set ?ids) + 1)"
    by (simp add: next_project_id_py_max py_max_eq)
  have stated: "stated_next_project_id data = Max (set (0 # ?ids)) + 1"
    by (simp only: stated_next_project_id_def Max.set_eq_fold)
  have second: "next_project_id data = stated_next_project_id data"
    if "?ids = [] \<or> (\<exists>i \<in> set ?ids. 0 \<le> i)"
  proof (cases "?ids = []")
    case True
    then show ?thesis by (simp add: first stated)
  next
    case False
    with that obtain i where i: "i \<in> set ?ids" "0 \<le> i" by blast
    have "i \<le> Max (set ?ids)" using i(1) by (intro Max_ge) simp_all
    then have "0 \<le> Max (set ?ids)" using i(2) by linarith
    then have "Max (insert 0 (set ?ids)) = Max (set ?ids)"
      using False by (simp add: max_def)
    then show ?thesis using False by (simp add: first stated)
  qed
  show ?thesis using first second by blast
qed

theorem next_project_id_max_witness:
  "(\<exists>i \<in> set (stored_ids sample_document). 0 \<le> i)
   \<and> next_project_id sample_document = 3
   \<and> stated_next_project_id sample_document = 3"
  using next_project_id_max [of sample_document]
  by (simp add: stored_ids_def sample_document_def project_dach_def project_bad_def dict_get_def)

subsection \<open>Loading\<close>

text \<open>
  In an interpreter that has just imported the module, \<open>load_data\<close> on an absent file
  returns the empty document; on a file that exists it returns what parsing the content
  gives, and raises where the content does not parse.
\<close>

lemma load_data_new_interpreter:
  "load_data json_load DEFAULT_DATA None = Inr \<lparr>projects = Some [], inventory = Some []\<rparr>
   \<and> load_data json_load default_data (Some bytes) =
       (case json_load bytes of None \<Rightarrow> Inl JSONDecodeError | Some data \<Rightarrow> Inr data)"
  by (simp add: load_data_def DEFAULT_DATA_def)

text \<open>
  Claim C7: when the file is absent, \<open>load_data\<close> returns a fresh empty document, with an
  empty list of projects and an empty inventory. The copy that \<open>load_data\<close> returns is
  shallow: \<open>project add\<close> on an absent file appends the new project to the list of the
  module's dictionary, and a later \<open>load_data\<close> in the same interpreter, with the file
  absent again, returns a document that holds this project; a second \<open>project add\<close>
  there assigns the id 2.
\<close>

theorem load_data_after_append_in_interpreter:
  "cmd_project_add plain_load plain_dump zaun_args DEFAULT_DATA None =
     (zaun_document, Inr (), Some zaun_document, [ProjectCreated 1 ''Zaun'' ''Weber''])
   \<and> load_data plain_load zaun_document None =
       Inr \<lparr>projects = Some [project_zaun], inventory = Some []\<rparr>
   \<and> load_data plain_load (fst (cmd_project_add plain_load plain_dump zaun_args DEFAULT_DATA None)) None
       \<noteq> Inr \<lparr>projects = Some [], inventory = Some []\<rparr>
   \<and> cmd_project_add plain_load plain_dump zaun_args zaun_document None =
       (\<lparr>projects = Some [project_zaun, project_zaun\<lparr>p_id := Some 2\<rparr>], inventory = Some []\<rparr>,
        Inr (),
        Some \<lparr>projects = Some [project_zaun, project_zaun\<lparr>p_id := Some 2\<rparr>], inventory = Some []\<rparr>,
        [ProjectCreated 2 ''Zaun'' ''Weber''])"
  by (simp add: cmd_project_add_def load_data_def module_data_after_def save_data_def
      setdefault_append_def Project_to_dict_def next_project_id_def dict_get_def
      DEFAULT_DATA_def zaun_args_def zaun_document_def project_zaun_def plain_dump_def Let_def)

subsection \<open>Ids assigned by successive runs of project add\<close>

lemma py_max_snoc: "py_max (xs @ [py_max xs 0 + 1]) 0 = py_max xs 0 + 1"
proof (cases "xs = []")
  case True
  then show ?thesis by simp
next
  case False
  have "Max (insert (Max (set xs) + 1) (set xs)) = Max (set xs) + 1"
    using False by (simp add: max_def)
  then show ?thesis using False by (simp add: py_max_eq)
qed

lemma cmd_project_add_loaded:
  "load_data json_load default_data fl = Inr data \<Longrightarrow>
   cmd_project_add json_load json_dump args default_data fl =
     (module_data_after fl default_data (added args data), Inr (),
      Some (json_dump (added args data)),
      [ProjectCreated (next_project_id data) (pa_name args) (pa_customer args)])"
  by (simp add: cmd_project_add_def added_def Let_def save_data_def setdefault_append_def
      Project_to_dict_def)

lemma run_project_add_loaded:
  "load_data json_load DEFAULT_DATA fl = Inr data \<Longrightarrow>
   run_program json_load json_dump (ProjectAdd args) fl =
     (Inr (), Some (json_dump (added args data)),
      [ProjectCreated (next_project_id data) (pa_name args) (pa_customer args)])"
  by (simp add: run_program_def cmd_project_add_loaded)

lemma stored_ids_added: "stored_ids (added args data) = stored_ids data @ [next_project_id data]"
  by (simp add: added_def stored_ids_def dict_get_def)

lemma next_project_id_added: "next_project_id (added args data) = next_project_id data + 1"
  by (simp add: next_project_id_py_max [of "added args data"] stored_ids_added)
     (simp add: next_project_id_py_max py_max_snoc)

lemma project_ids_added:
  "map p_id (case projects (added args data) of None \<Rightarrow> [] | Some ps \<Rightarrow> ps) =
   map p_id (case projects data of None \<Rightarrow> [] | Some ps \<Rightarrow> ps) @ [Some (next_project_id data)]"
  by (simp add: added_def dict_get_def)

lemma upt_shift:
  "map (\<lambda>k. Some (n + int k)) [0..<Suc m] = Some n # map (\<lambda>k. Some (n + 1 + int k)) [0..<m]"
  by (simp add: map_upt_Suc del: upt_Suc)

lemma project_adds_from:
  assumes roundtrip: "\<And>data. json_load (json_dump data) = Some data"
  shows "load_data json_load DEFAULT_DATA fl = Inr data \<Longrightarrow>
    map assigned_id (invocations json_load json_dump (map ProjectAdd argss) fl) =
    map (\<lambda>k. Some (next_project_id data + int k)) [0..<length argss]"
proof (induction argss arbitrary: fl data)
  case Nil
  show ?case by simp
next
  case (Cons a argss)
  have run: "run_program json_load json_dump (ProjectAdd a) fl =
      (Inr (), Some (json_dump (added a data)),
       [ProjectCreated (next_project_id data) (pa_name a) (pa_customer a)])"
    using Cons.prems by (rule run_project_add_loaded)
  have rest: "map assigned_id
      (invocations json_load json_dump (map ProjectAdd argss) (Some (json_dump (added a data)))) =
      map (\<lambda>k. Some (next_project_id (added a data) + int k)) [0..<length argss]"
    by (rule Cons.IH) (simp add: load_data_def roundtrip)
  show ?case
    by (simp add: run rest next_project_id_added upt_shift Let_def del: upt_Suc)
qed

lemma project_adds_stored:
  assumes roundtrip: "\<And>data. json_load (json_dump data) = Some data"
  shows "load_data json_load DEFAULT_DATA fl = Inr data \<Longrightarrow>
    \<exists>data'. load_data json_load DEFAULT_DATA
               (file_after json_load json_dump (map ProjectAdd argss) fl) = Inr data'
      \<and> map p_id (case projects data' of None \<Rightarrow> [] | Some ps \<Rightarrow> ps) =
          map p_id (case projects data of None \<Rightarrow> [] | Some ps \<Rightarrow> ps) @
          map (\<lambda>k. Some (next_project_id data + int k)) [0..<length argss]"
proof (induction argss arbitrary: fl data)
  case Nil
  then show ?case by simp
next
  case (Cons a argss)
  have run: "run_program json_load json_dump (ProjectAdd a) fl =
      (Inr (), Some (json_dump (added a data)),
       [ProjectCreated (next_project_id data) (pa_name a) (pa_customer a)])"
    using Cons.prems by (rule run_project_add_loaded)
  have "load_data json_load DEFAULT_DATA (Some (json_dump (added a data))) = Inr (added a data)"
    by (simp add: load_data_def roundtrip)
  from Cons.IH [OF this] obtain data' where
    ld: "load_data json_load DEFAULT_DATA
           (file_after json_load json_dump (map ProjectAdd argss) (Some (json_dump (added a data)))) =
         Inr data'"
    and ids: "map p_id (case projects data' of None \<Rightarrow> [] | Some ps \<Rightarrow> ps) =
         map p_id (case projects (added a data) of None \<Rightarrow> [] | Some ps \<Rightarrow> ps) @
         map (\<lambda>k. Some (next_project_id (added a data) + int k)) [0..<length argss]"
    by blast
  show ?case
    using ld ids
    by (simp add: run project_ids_added next_project_id_added upt_shift del: upt_Suc)
qed

lemma from_one: "map (\<lambda>k. Some (1 + int k)) [0..<n] = map (\<lambda>k. Some (int k)) [1..<Suc n]"
proof -
  have "map (\<lambda>k. Some (int k)) [1..<Suc n] = map (\<lambda>k. Some (int k)) (map Suc [0..<n])"
    by (simp only: map_Suc_upt One_nat_def)
  then show ?thesis by (simp add: comp_def)
qed

text \<open>
  Claim C1: for every sequence of runs of \<open>project add\<close> that starts on an absent file
  or on a file holding a document without projects, with nothing else writing the file
  between the runs (a run reads back what the run before it saved), the ids assigned are
  1, 2, 3, ... in this order, and they are the ids of the stored projects afterwards.
\<close>

theorem project_add_ids_sequential:
  assumes roundtrip: "\<And>data. json_load (json_dump data) = Some data"
    and start: "start = None \<or>
      (\<exists>bytes data. start = Some bytes \<and> json_load bytes = Some data
         \<and> (projects data = None \<or> projects data = Some []))"
  shows "map assigned_id (invocations json_load json_dump (map ProjectAdd argss) start) =
           map (\<lambda>k. Some (int k)) [1..<Suc (length argss)]
    \<and> (\<exists>data'. load_data json_load DEFAULT_DATA
                  (file_after json_load json_dump (map ProjectAdd argss) start) = Inr data'
          \<and> map p_id (case projects data' of None \<Rightarrow> [] | Some ps \<Rightarrow> ps) =
              map (\<lambda>k. Some (int k)) [1..<Suc (length argss)])"
proof -
  from start obtain data where ld: "load_data json_load DEFAULT_DATA start = Inr data"
    and empty: "projects data = None \<or> projects data = Some []"
    by (auto simp add: load_data_def DEFAULT_DATA_def)
  have one: "next_project_id data = 1"
    using empty by (auto simp add: next_project_id_def dict_get_def)
  have none: "(case projects data of None \<Rightarrow> [] | Some ps \<Rightarrow> ps) = []"
    using empty by auto
  show ?thesis
    using project_adds_from [where json_load = json_load and json_dump = json_dump, OF roundtrip ld]
      project_adds_stored [where json_load = json_load and json_dump = json_dump, OF roundtrip ld]
    by (simp add: one none from_one)
qed

theorem project_add_ids_sequential_witness:
  "(\<forall>data. plain_load (plain_dump data) = Some data)
   \<and> map assigned_id
       (invocations plain_load plain_dump (map ProjectAdd [zaun_args, zaun_args, zaun_args]) None) =
     [Some 1, Some 2, Some 3]"
proof -
  have rt: "\<And>data. plain_load (plain_dump data) = Some data"
    by (simp add: plain_load_def plain_dump_def)
  have "map assigned_id
       (invocations plain_load plain_dump (map ProjectAdd [zaun_args, zaun_args, zaun_args]) None) =
     map (\<lambda>k. Some (int k)) [1..<Suc (length [zaun_args, zaun_args, zaun_args])]"
    using project_add_ids_sequential [where json_load = plain_load and json_dump = plain_dump
        and start = None and argss = "[zaun_args, zaun_args, zaun_args]", OF rt] by simp
  also have "\<dots> = [Some 1, Some 2, Some 3]" by (simp add: upt_rec)
  finally show ?thesis using rt by simp
qed

subsection \<open>Looking a project up and changing it in place\<close>

lemma find_first_split:
  "List.find P xs = Some x \<Longrightarrow>
   \<exists>before after. xs = before @ x # after \<and> P x \<and> (\<forall>y \<in> set before. \<not> P y)"
proof (induction xs)
  case Nil
  then show ?case by simp
next
  case (Cons z zs)
  show ?case
  proof (cases "P z")
    case True
    with Cons.prems have "z = x" by simp
    with True have "z # zs = [] @ x # zs \<and> P x \<and> (\<forall>y \<in> set []. \<not> P y)" by simp
    then show ?thesis by blast
  next
    case False
    with Cons.prems have "List.find P zs = Some x" by simp
    from Cons.IH [OF this] obtain before after
      where "zs = before @ x # after" "P x" "\<forall>y \<in> set before. \<not> P y" by blast
    with False have "z # zs = (z # before) @ x # after \<and> P x \<and> (\<forall>y \<in> set (z # before). \<not> P y)"
      by simp
    then show ?thesis by blast
  qed
qed

lemma update_found_split:
  "(\<forall>q \<in> set before. p_id q \<noteq> Some project_id) \<Longrightarrow> p_id p = Some project_id \<Longrightarrow>
   update_found f project_id (before @ p # after) = before @ f p # after"
  by (induction before) simp_all

lemma find_project_split:
  assumes "find_project data project_id = Some project"
  shows "\<exists>before after. projects data = Some (before @ project # after)
     \<and> p_id project = Some project_id \<and> (\<forall>q \<in> set before. p_id q \<noteq> Some project_id)"
proof -
  from assms have "List.find (\<lambda>p. p_id p = Some project_id) (dict_get (projects data) []) = Some project"
    by (simp add: find_project_def)
  from find_first_split [OF this] obtain before after
    where sp: "dict_get (projects data) [] = before @ project # after"
      and "p_id project = Some project_id" "\<forall>q \<in> set before. p_id q \<noteq> Some project_id"
    by blast
  moreover from sp have "projects data = Some (before @ project # after)"
    by (cases "projects data") (simp_all add: dict_get_def)
  ultimately show ?thesis by blast
qed

subsection \<open>Adding a task\<close>



subsection \<open>Listing projects by status\<close>

lemma print_rows_with_ids:
  "\<forall>p \<in> set ps. p_id p \<noteq> None \<Longrightarrow>
   fst (print_rows ps) = Inr () \<and> table_rows (snd (print_rows ps)) = ps"
  by (induction ps) (auto split: option.splits prod.splits)

text \<open>
  Claim C4, as stated: for every status text X, the empty text included, \<open>project list\<close>
  with the filter X selects exactly the stored projects whose status is X. With the empty
  text as filter the test \<open>if args.status\<close> is false and no filter is applied: both
  projects of the sample document are listed, though none has the empty status.
\<close>

theorem project_list_filters_by_status_counterexample:
  "listed_projects \<lparr>pl_status = Some ''''\<rparr> sample_document = [project_dach, project_bad]
   \<and> filter (\<lambda>p. p_status p = Some '''') [project_dach, project_bad] = []
   \<and> projects sample_document = Some [project_dach, project_bad]
   \<and> cmd_project_list plain_load \<lparr>pl_status = Some ''''\<rparr> DEFAULT_DATA (Some sample_document) =
       (DEFAULT_DATA, Inr (), Some sample_document,
        [TableHeader, TableRule, TableRow 1 project_dach, TableRow 2 project_bad])"
  by (simp add: cmd_project_list_def listed_projects_def truthy_str_def load_data_def
      plain_load_def sample_document_def dict_get_def project_dach_def project_bad_def)

text \<open>
  Claim C4, amended: for every document and every status text X that is not empty,
  \<open>project list\<close> with the filter X selects exactly the stored projects whose status
  entry equals X, in their stored order; when every stored project has an id, the command
  returns normally and the rows it prints are the rows of these projects, in this order.
\<close>

theorem project_list_filters_by_status:
  assumes nonempty: "status \<noteq> []"
    and loaded: "load_data json_load default_data file = Inr data"
  shows "listed_projects \<lparr>pl_status = Some status\<rparr> data =
           filter (\<lambda>p. p_status p = Some status) (case projects data of None \<Rightarrow> [] | Some ps \<Rightarrow> ps)
    \<and> ((\<forall>p \<in> set (case projects data of None \<Rightarrow> [] | Some ps \<Rightarrow> ps). p_id p \<noteq> None) \<longrightarrow>
         fst (snd (cmd_project_list json_load \<lparr>pl_status = Some status\<rparr> default_data file)) = Inr ()
         \<and> table_rows (snd (snd (snd
              (cmd_project_list json_load \<lparr>pl_status = Some status\<rparr> default_data file)))) =
             filter (\<lambda>p. p_status p = Some status)
               (case projects data of None \<Rightarrow> [] | Some ps \<Rightarrow> ps))"
proof -
  let ?stored = "case projects data of None \<Rightarrow> [] | Some ps \<Rightarrow> ps"
  let ?sel = "filter (\<lambda>p. p_status p = Some status) ?stored"
  have stored: "dict_get (projects data) [] = ?stored"
    by (simp add: dict_get_def)
  have sel: "listed_projects \<lparr>pl_status = Some status\<rparr> data = ?sel"
    using nonempty by (simp add: listed_projects_def truthy_str_def stored)
  have rows: "fst (snd (cmd_project_list json_load \<lparr>pl_status = Some status\<rparr> default_data file)) = Inr ()
      \<and> table_rows (snd (snd (snd
           (cmd_project_list json_load \<lparr>pl_status = Some status\<rparr> default_data file)))) = ?sel"
    if ids: "\<forall>p \<in> set ?stored. p_id p \<noteq> None"
  proof -
    from ids have "\<forall>p \<in> set ?sel. p_id p \<noteq> None" by simp
    from print_rows_with_ids [OF this] show ?thesis
      by (auto simp add: cmd_project_list_def loaded sel Let_def split: prod.splits)
  qed
  from sel rows show ?thesis by blast
qed

theorem project_list_filters_by_status_witness:
  "''erledigt'' \<noteq> []
   \<and> load_data plain_load DEFAULT_DATA (Some sample_document) = Inr sample_document
   \<and> map p_id (case projects sample_document of None \<Rightarrow> [] | Some ps \<Rightarrow> ps) = [Some 1, Some 2]
   \<and> listed_projects \<lparr>pl_status = Some ''erledigt''\<rparr> sample_document = [project_bad]
   \<and> table_rows (snd (snd (snd (cmd_project_list plain_load \<lparr>pl_status = Some ''erledigt''\<rparr>
         DEFAULT_DATA (Some sample_document))))) = [project_bad]"
proof -
  have n: "''erledigt'' \<noteq> []" by simp
  have l: "load_data plain_load DEFAULT_DATA (Some sample_document) = Inr sample_document"
    by (simp add: load_data_def plain_load_def)
  have i: "\<forall>p \<in> set (case projects sample_document of None \<Rightarrow> [] | Some ps \<Rightarrow> ps). p_id p \<noteq> None"
    by (simp add: sample_document_def project_dach_def project_bad_def)
  have f: "filter (\<lambda>p. p_status p = Some ''erledigt'')
      (case projects sample_document of None \<Rightarrow> [] | Some ps \<Rightarrow> ps) = [project_bad]"
    by (simp add: sample_document_def project_dach_def project_bad_def)
  have m: "map p_id (case projects sample_document of None \<Rightarrow> [] | Some ps \<Rightarrow> ps) = [Some 1, Some 2]"
    by (simp add: sample_document_def project_dach_def project_bad_def)
  from project_list_filters_by_status [OF n l] i f l m show ?thesis by simp
qed

subsection \<open>Projects that are not found\<close>

text \<open>
  Claim C8: for every document and every project id that matches no stored project, the
  commands that look the project up (\<open>project detail\<close>, \<open>task add\<close>, and
  \<open>material add\<close> with an id other than 0) print that the project was not found,
  leave the file as it is and return normally; so do \<open>project list\<close> when no project
  is left to list and \<open>inventory list\<close> on an empty inventory. The process ends with
  status 0, also for \<open>material add\<close> with the id 0, which does not look the project up.
\<close>

theorem not_found_returns_normally:
  assumes loaded: "load_data json_load default_data file = Inr data"
    and missing: "find_project data project_id = None"
  shows "main json_load json_dump (ProjectDetail \<lparr>pd_project_id = project_id\<rparr>) default_data file =
           (default_data, Inr (), file, [ProjectNotFound project_id])
    \<and> main json_load json_dump (TaskAdd (targs\<lparr>ta_project_id := project_id\<rparr>)) default_data file =
           (default_data, Inr (), file, [ProjectNotFound project_id])
    \<and> (project_id \<noteq> 0 \<longrightarrow>
         main json_load json_dump (MaterialAdd (margs\<lparr>ma_project_id := Some project_id\<rparr>))
             default_data file =
           (default_data, Inr (), file, [ProjectNotFound project_id]))
    \<and> (listed_projects largs data = [] \<longrightarrow>
         main json_load json_dump (ProjectList largs) default_data file =
           (default_data, Inr (), file, [NoProjectsFound]))
    \<and> ((inventory data = None \<or> inventory data = Some []) \<longrightarrow>
         main json_load json_dump InventoryList default_data file =
           (default_data, Inr (), file, [NoInventory]))
    \<and> exit_status (snd (main json_load json_dump (ProjectDetail \<lparr>pd_project_id = project_id\<rparr>)
          default_data file)) = 0
    \<and> exit_status (snd (main json_load json_dump (TaskAdd (targs\<lparr>ta_project_id := project_id\<rparr>))
          default_data file)) = 0
    \<and> exit_status (snd (main json_load json_dump (MaterialAdd (margs\<lparr>ma_project_id := Some project_id\<rparr>))
          default_data file)) = 0"
proof -
  have detail: "cmd_project_detail json_load \<lparr>pd_project_id = project_id\<rparr> default_data file =
      (default_data, Inr (), file, [ProjectNotFound project_id])"
    by (simp add: cmd_project_detail_def loaded missing)
  have task: "cmd_task_add json_load json_dump (targs\<lparr>ta_project_id := project_id\<rparr>) default_data file =
      (default_data, Inr (), file, [ProjectNotFound project_id])"
    by (simp add: cmd_task_add_def loaded missing)
  have material: "cmd_material_add json_load json_dump (margs\<lparr>ma_project_id := Some project_id\<rparr>)
      default_data file = (default_data, Inr (), file, [ProjectNotFound project_id])"
    if "project_id \<noteq> 0"
    using that by (simp add: cmd_material_add_def loaded missing truthy_int_def dict_get_def Let_def)
  have zero: "fst (snd (cmd_material_add json_load json_dump (margs\<lparr>ma_project_id := Some 0\<rparr>)
      default_data file)) = Inr ()"
    by (simp add: cmd_material_add_def loaded truthy_int_def Let_def)
  have status: "exit_status (snd (cmd_material_add json_load json_dump
      (margs\<lparr>ma_project_id := Some project_id\<rparr>) default_data file)) = 0"
  proof (cases "project_id = 0")
    case True
    then show ?thesis using zero by (simp add: exit_status_def)
  next
    case False
    then show ?thesis by (simp add: material exit_status_def)
  qed
  have listing: "cmd_project_list json_load largs default_data file =
      (default_data, Inr (), file, [NoProjectsFound])"
    if "listed_projects largs data = []"
    using that by (simp add: cmd_project_list_def loaded)
  have stock: "cmd_inventory_list json_load default_data file = (default_data, Inr (), file, [NoInventory])"
    if "inventory data = None \<or> inventory data = Some []"
    using that by (auto simp add: cmd_inventory_list_def loaded dict_get_def)
  show ?thesis
    using material status listing stock by (simp add: detail task exit_status_def)
qed

theorem not_found_returns_normally_witness:
  "load_data plain_load DEFAULT_DATA (Some negative_id_document) = Inr negative_id_document
   \<and> find_project negative_id_document 7 = None
   \<and> listed_projects \<lparr>pl_status = Some ''erledigt''\<rparr> negative_id_document = []
   \<and> inventory negative_id_document = Some []
   \<and> main plain_load plain_dump (ProjectDetail \<lparr>pd_project_id = 7\<rparr>) DEFAULT_DATA
         (Some negative_id_document) =
       (DEFAULT_DATA, Inr (), Some negative_id_document, [ProjectNotFound 7])
   \<and> main plain_load plain_dump (TaskAdd (fugen_args\<lparr>ta_project_id := 7\<rparr>)) DEFAULT_DATA
         (Some negative_id_document) =
       (DEFAULT_DATA, Inr (), Some negative_id_document, [ProjectNotFound 7])
   \<and> main plain_load plain_dump (MaterialAdd (kleber_args\<lparr>ma_project_id := Some 7\<rparr>)) DEFAULT_DATA
         (Some negative_id_document) =
       (DEFAULT_DATA, Inr (), Some negative_id_document, [ProjectNotFound 7])
   \<and> main plain_load plain_dump (ProjectList \<lparr>pl_status = Some ''erledigt''\<rparr>) DEFAULT_DATA
         (Some negative_id_document) =
       (DEFAULT_DATA, Inr (), Some negative_id_document, [NoProjectsFound])
   \<and> main plain_load plain_dump InventoryList DEFAULT_DATA (Some negative_id_document) =
       (DEFAULT_DATA, Inr (), Some negative_id_document, [NoInventory])"
proof -
  have l: "load_data plain_load DEFAULT_DATA (Some negative_id_document) = Inr negative_id_document"
    by (simp add: load_data_def plain_load_def)
  have m: "find_project negative_id_document 7 = None"
    by (simp add: find_project_def negative_id_document_def dict_get_def project_dach_def)
  have e: "listed_projects \<lparr>pl_status = Some ''erledigt''\<rparr> negative_id_document = []"
    by (simp add: listed_projects_def truthy_str_def negative_id_document_def dict_get_def
        project_dach_def)
  have i: "inventory negative_id_document = Some []"
    by (simp add: negative_id_document_def)
  from not_found_returns_normally [OF l m, of plain_dump fugen_args kleber_args
      "\<lparr>pl_status = Some ''erledigt''\<rparr>"] l m e i
  show ?thesis by simp
qed

subsection \<open>Adding a material\<close>

text \<open>
  Claim C9: \<open>material add\<close> with the project id 0 does not report that the project is
  not found, whatever the document holds: the test \<open>if args.project_id\<close> is false for
  0, so the material goes to the end of the inventory (which is created when the key is
  absent) and the document is saved, exactly as when no project id is given.
\<close>

theorem material_add_zero_id_goes_to_inventory:
  assumes loaded: "load_data json_load default_data file = Inr data"
    and zero: "ma_project_id args = Some 0"
  shows "snd (cmd_material_add json_load json_dump args default_data file) =
           (Inr (),
            Some (json_dump (data\<lparr>inventory :=
               Some ((case inventory data of None \<Rightarrow> [] | Some stock \<Rightarrow> stock)
                 @ [\<lparr>m_name = Some (ma_name args), m_quantity = Some (ma_quantity args),
                      m_unit = Some (ma_unit args)\<rparr>])\<rparr>)),
            [MaterialAdded Lagerbestand (ma_quantity args) (ma_unit args) (ma_name args)])
    \<and> cmd_material_add json_load json_dump args default_data file =
        cmd_material_add json_load json_dump (args\<lparr>ma_project_id := None\<rparr>) default_data file"
  by (simp add: cmd_material_add_def loaded zero truthy_int_def Let_def save_data_def
      setdefault_append_def Material_to_dict_def dict_get_def)

theorem material_add_zero_id_goes_to_inventory_witness:
  "load_data plain_load DEFAULT_DATA (Some sample_document) = Inr sample_document
   \<and> ma_project_id kleber_args = Some 0
   \<and> inventory sample_document = Some [schrauben]
   \<and> snd (cmd_material_add plain_load plain_dump kleber_args DEFAULT_DATA (Some sample_document)) =
       (Inr (),
        Some \<lparr>projects = Some [project_dach, project_bad], inventory = Some [schrauben, kleber]\<rparr>,
        [MaterialAdded Lagerbestand 0 ''kg'' ''Kleber''])"
proof -
  have l: "load_data plain_load DEFAULT_DATA (Some sample_document) = Inr sample_document"
    by (simp add: load_data_def plain_load_def)
  have z: "ma_project_id kleber_args = Some 0"
    by (simp add: kleber_args_def)
  have i: "inventory sample_document = Some [schrauben]"
    by (simp add: sample_document_def)
  from material_add_zero_id_goes_to_inventory [OF l z, of plain_dump, THEN conjunct1] l z i
  show ?thesis by (simp add: plain_dump_def kleber_args_def kleber_def sample_document_def)
qed

text \<open>
  Claim C2: \<open>task add\<close> and \<open>material add\<close> with a project id that matches no stored
  project print that the project was not found and do not save. The sample document has
  no project with the id 0: \<open>task add\<close> with the id 0 reports it and leaves the file,
  but \<open>material add\<close> with the id 0 adds the material to the inventory and saves.
\<close>

theorem material_add_missing_zero_id_saves:
  "find_project sample_document 0 = None
   \<and> cmd_material_add plain_load plain_dump kleber_args DEFAULT_DATA (Some sample_document) =
       (DEFAULT_DATA, Inr (),
        Some \<lparr>projects = Some [project_dach, project_bad], inventory = Some [schrauben, kleber]\<rparr>,
        [MaterialAdded Lagerbestand 0 ''kg'' ''Kleber''])
   \<and> cmd_material_add plain_load plain_dump kleber_args DEFAULT_DATA (Some sample_document) \<noteq>
       (DEFAULT_DATA, Inr (), Some sample_document, [ProjectNotFound 0])
   \<and> cmd_task_add plain_load plain_dump (fugen_args\<lparr>ta_project_id := 0\<rparr>) DEFAULT_DATA
         (Some sample_document) =
       (DEFAULT_DATA, Inr (), Some sample_document, [ProjectNotFound 0])"
  by (simp add: cmd_material_add_def cmd_task_add_def find_project_def load_data_def plain_load_def
      plain_dump_def save_data_def setdefault_append_def Material_to_dict_def truthy_int_def
      module_data_after_def kleber_args_def kleber_def schrauben_def fugen_args_def
      sample_document_def project_dach_def project_bad_def dict_get_def Let_def)

text \<open>
  Without a project id the material goes to the inventory and the projects stay as they
  are; with an id other than 0 that matches a stored project it goes to the end of the
  materials of the first project with that id, and the inventory stays as it is.
\<close>

lemma material_add_without_project_id:
  assumes loaded: "load_data json_load default_data file = Inr data"
    and absent: "ma_project_id args = None"
  shows "snd (cmd_material_add json_load json_dump args default_data file) =
           (Inr (),
            Some (json_dump (data\<lparr>inventory :=
               Some ((case inventory data of None \<Rightarrow> [] | Some stock \<Rightarrow> stock)
                 @ [\<lparr>m_name = Some (ma_name args), m_quantity = Some (ma_quantity args),
                      m_unit = Some (ma_unit args)\<rparr>])\<rparr>)),
            [MaterialAdded Lagerbestand (ma_quantity args) (ma_unit args) (ma_name args)])"
  by (simp add: cmd_material_add_def loaded absent truthy_int_def Let_def save_data_def
      setdefault_append_def Material_to_dict_def dict_get_def)

lemma material_add_with_project_id:
  assumes loaded: "load_data json_load default_data file = Inr data"
    and given: "ma_project_id args = Some project_id"
    and nonzero: "project_id \<noteq> 0"
    and found: "find_project data project_id = Some project"
  shows "\<exists>before after.
      projects data = Some (before @ project # after)
    \<and> (\<forall>q \<in> set before. p_id q \<noteq> Some project_id)
    \<and> p_id project = Some project_id
    \<and> snd (cmd_material_add json_load json_dump args default_data file) =
        (Inr (),
         Some (json_dump (data\<lparr>projects := Some (before
            @ project\<lparr>p_materials :=
                 Some ((case p_materials project of None \<Rightarrow> [] | Some ms \<Rightarrow> ms)
                 @ [\<lparr>m_name = Some (ma_name args), m_quantity = Some (ma_quantity args),
                      m_unit = Some (ma_unit args)\<rparr>])\<rparr>
            # after)\<rparr>)),
         [MaterialAdded (ProjectContext project_id) (ma_quantity args) (ma_unit args) (ma_name args)])"
proof -
  from find_project_split [OF found] obtain before after
    where sp: "projects data = Some (before @ project # after)"
      and pid: "p_id project = Some project_id"
      and bef: "\<forall>q \<in> set before. p_id q \<noteq> Some project_id"
    by blast
  have "snd (cmd_material_add json_load json_dump args default_data file) =
        (Inr (),
         Some (json_dump (data\<lparr>projects := Some (before
            @ project\<lparr>p_materials :=
                 Some ((case p_materials project of None \<Rightarrow> [] | Some ms \<Rightarrow> ms)
                 @ [\<lparr>m_name = Some (ma_name args), m_quantity = Some (ma_quantity args),
                      m_unit = Some (ma_unit args)\<rparr>])\<rparr>
            # after)\<rparr>)),
         [MaterialAdded (ProjectContext project_id) (ma_quantity args) (ma_unit args) (ma_name args)])"
    using nonzero
    by (simp add: cmd_material_add_def loaded given found pid Let_def save_data_def
        mutate_project_def sp update_found_split [OF bef pid] setdefault_append_def
        Material_to_dict_def truthy_int_def dict_get_def)
  with sp pid bef show ?thesis by blast
qed

text \<open>
  Claim C6: \<open>material add\<close> with a project id that matches a stored project adds the
  material to that project and not to the inventory. On a document whose project has the
  id 0, \<open>material add\<close> with the id 0 finds no project to add to, because it does not
  look one up: the material goes to the inventory and the project keeps its materials.
\<close>

theorem material_add_stored_zero_id_goes_to_inventory:
  "find_project zero_id_document 0 = Some (project_dach\<lparr>p_id := Some 0\<rparr>)
   \<and> cmd_material_add plain_load plain_dump kleber_args DEFAULT_DATA (Some zero_id_document) =
       (DEFAULT_DATA, Inr (),
        Some \<lparr>projects = Some [project_dach\<lparr>p_id := Some 0\<rparr>], inventory = Some [kleber]\<rparr>,
        [MaterialAdded Lagerbestand 0 ''kg'' ''Kleber''])
   \<and> cmd_material_add plain_load plain_dump kleber_args DEFAULT_DATA (Some zero_id_document) \<noteq>
       (DEFAULT_DATA, Inr (),
        Some \<lparr>projects = Some [project_dach\<lparr>p_id := Some 0, p_materials := Some [kleber]\<rparr>],
              inventory = Some []\<rparr>,
        [MaterialAdded (ProjectContext 0) 0 ''kg'' ''Kleber''])"
  by (simp add: cmd_material_add_def find_project_def load_data_def plain_load_def
      plain_dump_def save_data_def setdefault_append_def Material_to_dict_def truthy_int_def
      module_data_after_def kleber_args_def kleber_def zero_id_document_def project_dach_def
      dict_get_def Let_def)

subsection \<open>Saving and loading again\<close>

text \<open>
  Loading what was just saved gives back the document exactly when \<open>json.load\<close> reads
  back what \<open>json.dump\<close> wrote; the program adds nothing to the round trip of the
  library.
\<close>

lemma load_data_after_save_data:
  "load_data json_load default_data (save_data json_dump data) = Inr data
   \<longleftrightarrow> json_load (json_dump data) = Some data"
  by (simp add: save_data_def load_data_def split: option.splits)

text \<open>Reading an object that was written: every key is written once.\<close>

lemma obj_get_append_left:
  "obj_get ys key = None \<Longrightarrow> obj_get (xs @ ys) key = obj_get xs key"
  by (induction xs) (auto split: option.splits)

lemma obj_get_append_right:
  "obj_get xs key = None \<Longrightarrow> obj_get (xs @ ys) key = obj_get ys key"
  by (induction xs) (auto split: option.splits if_splits)

lemma obj_get_opt_entry_same: "obj_get (opt_entry key to_json entry) key = map_option to_json entry"
  by (cases entry) (simp_all add: opt_entry_def)

lemma obj_get_opt_entry_other: "k \<noteq> key \<Longrightarrow> obj_get (opt_entry k to_json entry) key = None"
  by (cases entry) (simp_all add: opt_entry_def)

lemma obj_get_Cons_same: "obj_get kvs key = None \<Longrightarrow> obj_get ((key, v) # kvs) key = Some v"
  by simp

lemma obj_get_Cons_other: "k \<noteq> key \<Longrightarrow> obj_get ((k, v) # kvs) key = obj_get kvs key"
  by (simp split: option.splits)

lemmas obj_get_written =
  obj_get_append_right obj_get_append_left obj_get_opt_entry_same obj_get_opt_entry_other
  obj_get_Cons_same obj_get_Cons_other

lemma str_entry_string: "str_entry (map_option JString v) = Some v"
  by (cases v) simp_all

lemma optional_str_entry_written: "optional_str_entry (Some (json_of_optional_str v)) = Some v"
  by (cases v) (simp_all add: json_of_optional_str_def)

lemma int_entry_int: "int_entry (map_option JInt v) = Some v"
  by (cases v) simp_all

lemma those_map_written:
  "(\<And>x. x \<in> set xs \<Longrightarrow> of_json (to_json x) = Some x) \<Longrightarrow>
   those (map of_json (map to_json xs)) = Some xs"
  by (induction xs) simp_all

lemma list_entry_written:
  "(\<And>xs x. v = Some xs \<Longrightarrow> x \<in> set xs \<Longrightarrow> of_json (to_json x) = Some x) \<Longrightarrow>
   list_entry of_json (map_option (\<lambda>xs. JArray (map to_json xs)) v) = Some v"
  by (cases v) (simp_all add: those_map_written del: map_map)

lemma task_of_json_written: "task_of_json (json_of_task t) = Some t"
  by (simp add: json_of_task_def obj_get_written str_entry_string optional_str_entry_written
      del: obj_get.simps(2))

lemma is_nan_float_nan: "is_nan float_nan"
  by (simp add: is_nan_def float_nan_def)

lemma float_of_json_written: "\<not> is_nan x \<Longrightarrow> float_of_json (json_of_float x) = Some x"
  by (simp add: json_of_float_def)

lemma float_entry_written:
  "(\<forall>q. v = Some q \<longrightarrow> \<not> is_nan q) \<Longrightarrow> float_entry (map_option json_of_float v) = Some v"
  by (cases v) (simp_all add: float_of_json_written)

lemma material_of_json_written:
  "(\<forall>q. m_quantity m = Some q \<longrightarrow> \<not> is_nan q) \<Longrightarrow> material_of_json (json_of_material m) = Some m"
  by (simp add: json_of_material_def obj_get_written str_entry_string float_entry_written
      del: obj_get.simps(2))

lemma project_of_json_written:
  assumes "\<And>ms m q. p_materials p = Some ms \<Longrightarrow> m \<in> set ms \<Longrightarrow> m_quantity m = Some q \<Longrightarrow> \<not> is_nan q"
  shows "project_of_json (json_of_project p) = Some p"
proof -
  have tasks: "list_entry task_of_json (map_option (\<lambda>ts. JArray (map json_of_task ts)) (p_tasks p)) =
      Some (p_tasks p)"
    by (rule list_entry_written) (rule task_of_json_written)
  have materials: "list_entry material_of_json
      (map_option (\<lambda>ms. JArray (map json_of_material ms)) (p_materials p)) = Some (p_materials p)"
    by (rule list_entry_written) (rule material_of_json_written, use assms in blast)
  show ?thesis
    by (simp add: json_of_project_def obj_get_written str_entry_string int_entry_int
        optional_str_entry_written tasks materials del: obj_get.simps(2))
qed

lemma quantities_of_member:
  "entry = Some ms \<Longrightarrow> m \<in> set ms \<Longrightarrow> m_quantity m = Some q \<Longrightarrow> q \<in> set (quantities_of entry)"
  by (force simp add: quantities_of_def)

lemma quantities_inventory:
  "inventory data = Some ms \<Longrightarrow> m \<in> set ms \<Longrightarrow> m_quantity m = Some q \<Longrightarrow> q \<in> set (quantities data)"
  by (simp add: quantities_def quantities_of_member)

lemma quantities_project:
  "projects data = Some ps \<Longrightarrow> p \<in> set ps \<Longrightarrow> p_materials p = Some ms \<Longrightarrow> m \<in> set ms \<Longrightarrow>
   m_quantity m = Some q \<Longrightarrow> q \<in> set (quantities data)"
  using quantities_of_member [of "p_materials p" ms m q] by (force simp add: quantities_def)

lemma py_json_load_written:
  assumes "\<forall>q \<in> set (quantities data). \<not> is_nan q"
  shows "py_json_load (py_json_dump data) = Some data"
proof -
  have ps: "list_entry project_of_json
      (map_option (\<lambda>ps. JArray (map json_of_project ps)) (projects data)) = Some (projects data)"
    by (rule list_entry_written) (rule project_of_json_written, use assms quantities_project in blast)
  have ms: "list_entry material_of_json
      (map_option (\<lambda>ms. JArray (map json_of_material ms)) (inventory data)) = Some (inventory data)"
    by (rule list_entry_written) (rule material_of_json_written, use assms quantities_inventory in blast)
  show ?thesis
    by (simp add: py_json_dump_def obj_get_written ps ms del: obj_get.simps(2))
qed

text \<open>Python's equality of documents and the quantities that are NaN.\<close>

lemma float_eq_same: "float_eq x x \<longleftrightarrow> \<not> is_nan x"
  by (simp add: float_eq_def)

lemma material_eq_quantity: "material_eq m m' \<Longrightarrow> m_quantity m = Some q \<Longrightarrow> \<not> is_nan q"
  by (cases "m_quantity m'") (simp_all add: material_eq_def float_eq_def)

lemma materials_eq_quantities:
  "rel_option (list_all2 material_eq) entry entry' \<Longrightarrow> q \<in> set (quantities_of entry) \<Longrightarrow> \<not> is_nan q"
proof (cases entry)
  case None
  then show "q \<in> set (quantities_of entry) \<Longrightarrow> \<not> is_nan q" by (simp add: quantities_of_def)
next
  case (Some ms)
  assume rel: "rel_option (list_all2 material_eq) entry entry'" and q: "q \<in> set (quantities_of entry)"
  from rel Some obtain ms' where all2: "list_all2 material_eq ms ms'"
    by (cases entry') auto
  from q Some obtain m where m: "m \<in> set ms" "m_quantity m = Some q"
    by (auto simp add: quantities_of_def split: option.splits)
  from all2 m(1) obtain m' where "material_eq m m'"
    by (auto simp add: list_all2_conv_all_nth in_set_conv_nth)
  then show "\<not> is_nan q" using m(2) by (rule material_eq_quantity)
qed

lemma document_eq_quantities:
  assumes "document_eq data data'" and "q \<in> set (quantities data)"
  shows "\<not> is_nan q"
proof -
  from assms(2) consider
      (project) ps p where "projects data = Some ps" "p \<in> set ps" "q \<in> set (quantities_of (p_materials p))"
    | (stock) "q \<in> set (quantities_of (inventory data))"
    by (cases "projects data") (auto simp add: quantities_def)
  then show ?thesis
  proof cases
    case project
    from assms(1) project(1) obtain ps' where "list_all2 project_eq ps ps'"
      by (cases "projects data'") (auto simp add: document_eq_def)
    with project(2) obtain p' where "project_eq p p'"
      by (auto simp add: list_all2_conv_all_nth in_set_conv_nth)
    then have "rel_option (list_all2 material_eq) (p_materials p) (p_materials p')"
      by (simp add: project_eq_def)
    then show ?thesis using project(3) by (rule materials_eq_quantities)
  next
    case stock
    from assms(1) have "rel_option (list_all2 material_eq) (inventory data) (inventory data')"
      by (simp add: document_eq_def)
    then show ?thesis using stock by (rule materials_eq_quantities)
  qed
qed

lemma materials_eq_same:
  "(\<And>q. q \<in> set (quantities_of entry) \<Longrightarrow> \<not> is_nan q) \<Longrightarrow> rel_option (list_all2 material_eq) entry entry"
proof (cases entry)
  case None
  then show ?thesis by simp
next
  case (Some ms)
  assume free: "\<And>q. q \<in> set (quantities_of entry) \<Longrightarrow> \<not> is_nan q"
  have "material_eq m m" if "m \<in> set ms" for m
  proof (cases "m_quantity m")
    case None
    then show ?thesis by (simp add: material_eq_def)
  next
    case (Some q)
    with that \<open>entry = Some ms\<close> have "q \<in> set (quantities_of entry)"
      by (simp add: quantities_of_member)
    then show ?thesis using Some free by (simp add: material_eq_def float_eq_same)
  qed
  then show ?thesis using Some by (simp add: list_all2_same)
qed

lemma document_eq_same:
  assumes "\<forall>q \<in> set (quantities data). \<not> is_nan q"
  shows "document_eq data data"
proof -
  have stock: "rel_option (list_all2 material_eq) (inventory data) (inventory data)"
    by (rule materials_eq_same) (use assms in \<open>simp add: quantities_def\<close>)
  have "project_eq p p" if "projects data = Some ps" "p \<in> set ps" for ps p
  proof -
    have "rel_option (list_all2 material_eq) (p_materials p) (p_materials p)"
      by (rule materials_eq_same) (use assms that in \<open>auto simp add: quantities_def\<close>)
    then show ?thesis by (simp add: project_eq_def)
  qed
  then have "rel_option (list_all2 project_eq) (projects data) (projects data)"
    by (cases "projects data") (simp_all add: list_all2_same)
  with stock show ?thesis by (simp add: document_eq_def)
qed

text \<open>
  Claim C5, as stated: for every valid document, saving it and loading it again gives a
  document that is equal to it field for field. \<open>material add\<close> takes the quantity with
  \<open>float\<close>, which reads \<open>nan\<close>; a document with this quantity is written and read back
  with a NaN in the same place, and a NaN is not equal to itself, so the document that was
  loaded is not equal to the one that was saved.
\<close>

theorem save_then_load_nan_counterexample:
  "(\<exists>q \<in> set (quantities nan_document). is_nan q)
   \<and> load_data py_json_load DEFAULT_DATA (save_data py_json_dump nan_document) = Inr nan_document
   \<and> \<not> document_eq nan_document nan_document"
  by (simp add: quantities_def quantities_of_def nan_document_def is_nan_float_nan load_data_def
      save_data_def py_json_dump_def json_of_material_def json_of_float_def opt_entry_def
      document_eq_def material_eq_def float_eq_def)

text \<open>
  Claim C5, amended: for every document of the data model (every entry present or absent)
  in which no quantity is a NaN, saving it and loading it again gives the same document,
  which is equal to it field for field; a document in which a quantity is a NaN is equal
  to no document.
\<close>

theorem save_then_load:
  "((\<forall>q \<in> set (quantities data). \<not> is_nan q) \<longrightarrow>
      load_data py_json_load default_data (save_data py_json_dump data) = Inr data
      \<and> document_eq data data)
   \<and> ((\<exists>q \<in> set (quantities data). is_nan q) \<longrightarrow> (\<forall>data'. \<not> document_eq data data'))"
proof (intro conjI impI)
  assume free: "\<forall>q \<in> set (quantities data). \<not> is_nan q"
  then show "load_data py_json_load default_data (save_data py_json_dump data) = Inr data"
    by (simp add: load_data_def save_data_def py_json_load_written)
  from free show "document_eq data data" by (rule document_eq_same)
next
  assume "\<exists>q \<in> set (quantities data). is_nan q"
  then show "\<forall>data'. \<not> document_eq data data'"
    using document_eq_quantities by blast
qed

theorem save_then_load_witness:
  "quantities sample_document = [0]
   \<and> \<not> is_nan 0
   \<and> load_data py_json_load DEFAULT_DATA (save_data py_json_dump sample_document) = Inr sample_document
   \<and> document_eq sample_document sample_document
   \<and> quantities nan_document = [float_nan]
   \<and> is_nan float_nan
   \<and> \<not> document_eq nan_document zaun_document"
proof -
  have q: "quantities sample_document = [0]"
    by (simp add: quantities_def quantities_of_def sample_document_def schrauben_def
        project_dach_def project_bad_def)
  have z: "\<not> is_nan 0"
    by (simp add: is_nan_def)
  have n: "quantities nan_document = [float_nan]"
    by (simp add: quantities_def quantities_of_def nan_document_def)
  from save_then_load [of sample_document DEFAULT_DATA] save_then_load [of nan_document DEFAULT_DATA]
    q z n is_nan_float_nan
  show ?thesis by simp
qed

end
